theory Spec2Isabelle
  imports Complex_Main "HOL-Library.Multiset"
begin

section \<open>Data model\<close>

text \<open>
  Wall-clock readings (\<open>Date.now()\<close>) and pause durations are integers of milliseconds
  (\<open>int\<close>); sums and differences of such integers are exact in a double while they stay
  below \<open>2^53\<close>, which every valid date does. Monotonic readings and pay rates are
  rationals (\<open>rat\<close>). The earnings computations of the store divide and multiply, and
  there every operation is rounded to the nearest double as JavaScript does (section
  ``IEEE double arithmetic''); the comparisons of \<open>validateTimeEntry\<close> are taken over the
  exact rationals. An ISO 8601 string produced by \<open>toISOString()\<close> is modelled by the epoch
  milliseconds it denotes, which is what \<open>new Date(s).getTime()\<close> reads back.
  \<open>null\<close> is \<open>None\<close>.
\<close>

datatype TimeEventType = CLOCK_IN | CLOCK_OUT | FORCE_CLOCK_OUT | BREAK_START | BREAK_END

datatype AppMode = PASSIVE | ACTIVE

datatype TimeEntryType = STANDARD | REMOTE_TASK

datatype platform = Native | Web

record TimePayload =
  userTime :: int
  monotonicTime :: rat
  eventType :: TimeEventType
  deviceId :: string
  timestamp :: int

record SignedTimeCapture =
  payload :: TimePayload
  signature :: string

record TimeEvent =
  ev_eventType :: TimeEventType
  wallClockTime :: int
  ev_monotonicTime :: rat
  ev_deviceBootTime :: int
  ev_deviceId :: string
  deviceModel :: string
  osVersion :: string
  appVersion :: string

text \<open>
  The optional associations of a TimeEntry other than \<open>remoteTaskId\<close> (shift and
  location fields) are never written by the functions modelled here and are left out.
\<close>

record TimeEntry =
  entry_id :: string
  userId :: string
  startTime :: int
  endTime :: "int option"
  entry_type :: TimeEntryType
  monotonicStart :: rat
  monotonicEnd :: "rat option"
  deviceBootTime :: int
  entry_deviceId :: string
  isSynced :: bool
  syncAttempts :: int
  lastSyncAttempt :: "int option"
  remoteTaskId :: "string option"
  entry_createdAt :: int
  entry_updatedAt :: int

record RemoteTask =
  task_id :: string
  task_name :: string
  payRate :: rat
  maxDuration :: rat
  estimatedDuration :: rat

datatype action_type = TIME_ENTRY | LOCATION_UPDATE | TASK_COMPLETION | OTHER | SIGNED_TIME_CAPTURE

datatype action_payload =
  EntryPayload TimeEntry
| CapturePayload SignedTimeCapture
| OtherPayload string

record QueuedAction =
  qa_id :: string
  qa_type :: action_type
  qa_payload :: action_payload
  priority :: int
  attempts :: int
  maxAttempts :: int
  lastAttempt :: "int option"
  createdAt :: int

text \<open>A row of the native table \<open>offline_queue\<close>: the action and the three extra columns.\<close>

record row = QueuedAction +
  updated_at :: int
  monotonic_timestamp :: "rat option"
  signature_col :: "string option"

text \<open>The argument of \<open>enqueue\<close>; \<open>maxAttempts\<close> may be absent.\<close>

record new_action =
  na_type :: action_type
  na_payload :: action_payload
  na_priority :: int
  na_maxAttempts :: "int option"

text \<open>The argument of \<open>update\<close>: every field is optional (\<open>Partial\<close>).\<close>

record updates =
  u_type :: "action_type option"
  u_payload :: "action_payload option"
  u_priority :: "int option"
  u_attempts :: "int option"
  u_maxAttempts :: "int option"
  u_lastAttempt :: "int option option"

text \<open>
  The persisted queue. On the web it is the item stored under \<open>QUEUE_STORAGE_KEY\<close>
  (\<open>None\<close> when the key is absent); on native it is the rows of the table, in insertion
  order.
\<close>

record storage =
  web_item :: "QueuedAction list option"
  db_rows :: "row list"

text \<open>
  What one call reads from its surroundings. All wall-clock readings of one call are the
  single value \<open>now\<close>. \<open>systemUptime\<close> is the result of
  \<open>DeviceInfo.getSystemUptime()\<close> (\<open>None\<close> when it rejects), \<open>performanceNow\<close> the
  value of \<open>performance.now()\<close> (\<open>None\<close> when it is not defined). \<open>installationId\<close>
  and \<open>webDeviceId\<close> are what the try blocks of the two \<open>getDeviceId\<close> produce (\<open>None\<close>
  when they throw). \<open>uuid_store\<close> and \<open>uuid_queue\<close> are the values drawn by
  \<open>uuidv4()\<close> in the store and in the queue. The three flags say whether the AsyncStorage
  read, the AsyncStorage write and the SQLite calls of this call succeed. \<open>stringify\<close> and
  \<open>digest\<close> stand for \<open>JSON.stringify\<close> on a payload and for
  \<open>Crypto.digestStringAsync\<close> with SHA-256 (\<open>None\<close> when it rejects).
\<close>

record env =
  now :: int
  systemUptime :: "rat option"
  performanceNow :: "rat option"
  installationId :: "string option"
  webDeviceId :: "string option"
  modelName :: "string option"
  deviceOsVersion :: "string option"
  nativeApplicationVersion :: "string option"
  userAgent :: "string option"
  uuid_store :: string
  uuid_queue :: string
  storage_read_ok :: bool
  storage_write_ok :: bool
  db_ok :: bool
  stringify :: "TimePayload \<Rightarrow> string"
  digest :: "string \<Rightarrow> string option"

section \<open>Time Truth Service\<close>

definition SECRET_SALT :: string where
  "SECRET_SALT = ''WORKFORCE_MOBILE_SECRET_SALT_PLACEHOLDER_2024''"

definition WEB_SIGNATURE :: string where
  "WEB_SIGNATURE = ''WEB_UNVERIFIED_SIGNATURE''"

text \<open>\<open>new Date(x)\<close> clips a time value to an integer, towards zero.\<close>

definition timeClip :: "rat \<Rightarrow> int" where
  "timeClip x = (if 0 \<le> x then \<lfloor>x\<rfloor> else \<lceil>x\<rceil>)"

text \<open>\<open>s || d\<close> on a string that may be missing: the default for a missing or empty string.\<close>

definition or_default :: "string option \<Rightarrow> string \<Rightarrow> string" where
  "or_default s d = (case s of None \<Rightarrow> d | Some v \<Rightarrow> (if v = [] then d else v))"

text \<open>
  \<open>getMonotonicTime\<close>; \<open>None\<close> is the thrown error. The native version multiplies the
  uptime by 1000 and, when the provider rejects, falls back to \<open>performance.now()\<close>
  if that exists. The web version returns \<open>Date.now()\<close>.
\<close>

definition getMonotonicTime :: "platform \<Rightarrow> env \<Rightarrow> rat option" where
  "getMonotonicTime pf e =
     (case pf of
        Native \<Rightarrow>
          (case systemUptime e of
             Some uptime \<Rightarrow> Some (uptime * 1000)
           | None \<Rightarrow> (case performanceNow e of Some t \<Rightarrow> Some t | None \<Rightarrow> None))
      | Web \<Rightarrow> Some (of_int (now e)))"

definition calculateBootTime :: "platform \<Rightarrow> env \<Rightarrow> rat \<Rightarrow> int" where
  "calculateBootTime pf e uptime =
     (case pf of Native \<Rightarrow> timeClip (of_int (now e) - uptime) | Web \<Rightarrow> now e)"

text \<open>\<open>getMonotonicTimeInfo\<close>: the pair (uptime, bootTime). The web version reports uptime 0.\<close>

definition getMonotonicTimeInfo :: "platform \<Rightarrow> env \<Rightarrow> (rat \<times> int) option" where
  "getMonotonicTimeInfo pf e =
     (case pf of
        Native \<Rightarrow>
          (case getMonotonicTime Native e of
             None \<Rightarrow> None
           | Some uptime \<Rightarrow> Some (uptime, calculateBootTime Native e uptime))
      | Web \<Rightarrow> Some (0, now e))"

definition getDeviceId :: "platform \<Rightarrow> env \<Rightarrow> string" where
  "getDeviceId pf e =
     (case pf of
        Native \<Rightarrow> (case installationId e of Some i \<Rightarrow> i | None \<Rightarrow> ''unknown-device'')
      | Web \<Rightarrow> (case webDeviceId e of Some i \<Rightarrow> i | None \<Rightarrow> ''web_unknown''))"

text \<open>\<open>getDeviceInfo\<close>: (deviceModel, osVersion, appVersion).\<close>

definition getDeviceInfo :: "platform \<Rightarrow> env \<Rightarrow> string \<times> string \<times> string" where
  "getDeviceInfo pf e =
     (case pf of
        Native \<Rightarrow>
          (or_default (modelName e) ''Unknown'',
           or_default (deviceOsVersion e) ''Unknown'',
           or_default (nativeApplicationVersion e) ''1.0.0'')
      | Web \<Rightarrow>
          (case userAgent e of
             Some ua \<Rightarrow> (''Web Browser'', ua, ''1.0.0-web'')
           | None \<Rightarrow> (''Web Browser'', ''Unknown'', ''1.0.0-web'')))"

definition generateSignature :: "env \<Rightarrow> TimePayload \<Rightarrow> string \<Rightarrow> string option" where
  "generateSignature e data salt = digest e (stringify e data @ salt)"

text \<open>\<open>captureCurrentTime\<close>; \<open>None\<close> is the rethrown error.\<close>

definition captureCurrentTime :: "platform \<Rightarrow> env \<Rightarrow> TimeEventType \<Rightarrow> SignedTimeCapture option" where
  "captureCurrentTime pf e evt =
     (case pf of
        Native \<Rightarrow>
          (case getMonotonicTime Native e of
             None \<Rightarrow> None
           | Some m \<Rightarrow>
               (let p = \<lparr>userTime = now e, monotonicTime = m, eventType = evt,
                         deviceId = getDeviceId Native e, timestamp = now e\<rparr>
                in case generateSignature e p SECRET_SALT of
                     None \<Rightarrow> None
                   | Some sg \<Rightarrow> Some \<lparr>payload = p, signature = sg\<rparr>))
      | Web \<Rightarrow>
          Some \<lparr>payload = \<lparr>userTime = now e, monotonicTime = of_int (now e), eventType = evt,
                            deviceId = getDeviceId Web e, timestamp = now e\<rparr>,
                signature = WEB_SIGNATURE\<rparr>)"

text \<open>\<open>validateIntegrity\<close>: the native version answers false when signing throws.\<close>

definition validateIntegrity :: "platform \<Rightarrow> env \<Rightarrow> SignedTimeCapture \<Rightarrow> bool" where
  "validateIntegrity pf e c =
     (case pf of
        Native \<Rightarrow>
          (case generateSignature e (payload c) SECRET_SALT of
             None \<Rightarrow> False
           | Some expected \<Rightarrow> expected = signature c)
      | Web \<Rightarrow> signature c = WEB_SIGNATURE)"

text \<open>\<open>captureTimeEvent\<close> (the legacy capture the store calls); \<open>None\<close> is the rethrown error.\<close>

definition captureTimeEvent :: "platform \<Rightarrow> env \<Rightarrow> TimeEventType \<Rightarrow> TimeEvent option" where
  "captureTimeEvent pf e evt =
     (case getMonotonicTimeInfo pf e of
        None \<Rightarrow> None
      | Some (uptime, bootTime) \<Rightarrow>
          (case getDeviceInfo pf e of
             (dm, osv, av) \<Rightarrow>
               Some \<lparr>ev_eventType = evt,
                     wallClockTime = now e,
                     ev_monotonicTime = (case pf of Native \<Rightarrow> uptime | Web \<Rightarrow> of_int (now e)),
                     ev_deviceBootTime = bootTime,
                     ev_deviceId = getDeviceId pf e,
                     deviceModel = dm, osVersion = osv, appVersion = av\<rparr>))"

text \<open>One constructor for each message \<open>validateTimeEntry\<close> can push.\<close>

datatype issue = MissingMonotonicStart | EndBeforeStart | DurationTooLong | TimeVariance

text \<open>
  The comparison \<open>variance > 0.05\<close> with \<open>variance = |w - m| / w\<close> in JavaScript
  arithmetic: a zero \<open>w\<close> gives Infinity (greater) when the numerator is not zero and NaN
  (not greater) when it is.
\<close>

definition variance_exceeds :: "int \<Rightarrow> rat \<Rightarrow> bool" where
  "variance_exceeds w m =
     (if w = 0 then of_int w - m \<noteq> 0
      else \<bar>of_int w - m\<bar> / of_int w > 5 / 100)"

text \<open>
  \<open>validateTimeEntry\<close>: the list of issues. \<open>monotonicStart\<close> has type number, so the
  first check of the native version (missing monotonic start) never fires on a TimeEntry.
  The native variance check runs only when \<open>endTime && monotonicEnd\<close> is truthy, that is
  for a present end time and a present, non-zero \<open>monotonicEnd\<close>. The web version has no
  variance check.
\<close>

definition durationIssues :: "TimeEntry \<Rightarrow> issue list" where
  "durationIssues t =
     (case endTime t of
        None \<Rightarrow> []
      | Some en \<Rightarrow>
          (if en < startTime t then [EndBeforeStart] else []) @
          (let durationHours = (of_int (en - startTime t) :: rat) / (1000 * 60 * 60)
           in if durationHours > 24 then [DurationTooLong] else []))"

definition varianceIssues :: "TimeEntry \<Rightarrow> issue list" where
  "varianceIssues t =
     (case endTime t of
        None \<Rightarrow> []
      | Some en \<Rightarrow>
          (case monotonicEnd t of
             None \<Rightarrow> []
           | Some me \<Rightarrow>
               (if me = 0 then []
                else
                  (let wallClockDuration = en - startTime t;
                       monotonicDuration = me - monotonicStart t
                   in if variance_exceeds wallClockDuration monotonicDuration
                      then [TimeVariance]
                      else []))))"

definition validateTimeEntry :: "platform \<Rightarrow> TimeEntry \<Rightarrow> issue list" where
  "validateTimeEntry pf t =
     (case pf of
        Native \<Rightarrow> durationIssues t @ varianceIssues t
      | Web \<Rightarrow> durationIssues t)"

definition isValid :: "platform \<Rightarrow> TimeEntry \<Rightarrow> bool" where
  "isValid pf t = (validateTimeEntry pf t = [])"

section \<open>Offline Queue Service\<close>

text \<open>
  Every queue operation that throws leaves the persisted queue as it was, because its only
  write is its last step; such an operation returns \<open>None\<close>.
\<close>

definition loadQueue :: "env \<Rightarrow> storage \<Rightarrow> QueuedAction list" where
  "loadQueue e stg =
     (if storage_read_ok e
      then (case web_item stg of None \<Rightarrow> [] | Some q \<Rightarrow> q)
      else [])"

definition saveQueue :: "env \<Rightarrow> QueuedAction list \<Rightarrow> storage \<Rightarrow> storage option" where
  "saveQueue e q stg =
     (if storage_write_ok e then Some (stg\<lparr>web_item := Some q\<rparr>) else None)"

definition newQueuedAction :: "env \<Rightarrow> new_action \<Rightarrow> QueuedAction" where
  "newQueuedAction e a =
     \<lparr>qa_id = uuid_queue e,
      qa_type = na_type a,
      qa_payload = na_payload a,
      priority = na_priority a,
      attempts = 0,
      maxAttempts = (case na_maxAttempts a of None \<Rightarrow> 5 | Some m \<Rightarrow> (if m = 0 then 5 else m)),
      lastAttempt = None,
      createdAt = now e\<rparr>"

definition row_of :: "QueuedAction \<Rightarrow> rat option \<Rightarrow> string option \<Rightarrow> row" where
  "row_of a mt sg =
     \<lparr>qa_id = qa_id a, qa_type = qa_type a, qa_payload = qa_payload a, priority = priority a,
      attempts = attempts a, maxAttempts = maxAttempts a, lastAttempt = lastAttempt a,
      createdAt = createdAt a, updated_at = createdAt a,
      monotonic_timestamp = mt, signature_col = sg\<rparr>"

definition action_of :: "row \<Rightarrow> QueuedAction" where
  "action_of r =
     \<lparr>qa_id = qa_id r, qa_type = qa_type r, qa_payload = qa_payload r, priority = priority r,
      attempts = attempts r, maxAttempts = maxAttempts r, lastAttempt = lastAttempt r,
      createdAt = createdAt r\<rparr>"

text \<open>\<open>INSERT\<close> into the table: rejected when the database fails or the primary key exists.\<close>

definition insertRow :: "env \<Rightarrow> row \<Rightarrow> storage \<Rightarrow> storage option" where
  "insertRow e r stg =
     (if db_ok e \<and> qa_id r \<notin> set (map qa_id (db_rows stg))
      then Some (stg\<lparr>db_rows := db_rows stg @ [r]\<rparr>)
      else None)"

definition enqueue :: "platform \<Rightarrow> env \<Rightarrow> new_action \<Rightarrow> storage \<Rightarrow> (QueuedAction \<times> storage) option" where
  "enqueue pf e a stg =
     (let queuedAction = newQueuedAction e a
      in case pf of
           Web \<Rightarrow>
             (case saveQueue e (loadQueue e stg @ [queuedAction]) stg of
                None \<Rightarrow> None
              | Some stg' \<Rightarrow> Some (queuedAction, stg'))
         | Native \<Rightarrow>
             (case insertRow e (row_of queuedAction None None) stg of
                None \<Rightarrow> None
              | Some stg' \<Rightarrow> Some (queuedAction, stg')))"

definition enqueueSignedTimeCapture ::
  "platform \<Rightarrow> env \<Rightarrow> SignedTimeCapture \<Rightarrow> int option \<Rightarrow> storage \<Rightarrow> (QueuedAction \<times> storage) option" where
  "enqueueSignedTimeCapture pf e c prio stg =
     (let queuedAction =
            \<lparr>qa_id = uuid_queue e, qa_type = SIGNED_TIME_CAPTURE, qa_payload = CapturePayload c,
             priority = (case prio of None \<Rightarrow> 10 | Some p \<Rightarrow> p),
             attempts = 0, maxAttempts = 5, lastAttempt = None, createdAt = now e\<rparr>
      in case pf of
           Web \<Rightarrow>
             (case saveQueue e (loadQueue e stg @ [queuedAction]) stg of
                None \<Rightarrow> None
              | Some stg' \<Rightarrow> Some (queuedAction, stg'))
         | Native \<Rightarrow>
             (case insertRow e (row_of queuedAction (Some (monotonicTime (payload c)))
                                  (Some (signature c))) stg of
                None \<Rightarrow> None
              | Some stg' \<Rightarrow> Some (queuedAction, stg')))"

fun findIndex :: "('a \<Rightarrow> bool) \<Rightarrow> 'a list \<Rightarrow> nat option" where
  "findIndex P [] = None"
| "findIndex P (x # xs) =
     (if P x then Some 0 else (case findIndex P xs of None \<Rightarrow> None | Some k \<Rightarrow> Some (Suc k)))"

text \<open>The object spread \<open>{...action, ...updates}\<close>.\<close>

definition applyUpdates :: "updates \<Rightarrow> QueuedAction \<Rightarrow> QueuedAction" where
  "applyUpdates u a =
     a\<lparr>qa_type := (case u_type u of None \<Rightarrow> qa_type a | Some v \<Rightarrow> v),
       qa_payload := (case u_payload u of None \<Rightarrow> qa_payload a | Some v \<Rightarrow> v),
       priority := (case u_priority u of None \<Rightarrow> priority a | Some v \<Rightarrow> v),
       attempts := (case u_attempts u of None \<Rightarrow> attempts a | Some v \<Rightarrow> v),
       maxAttempts := (case u_maxAttempts u of None \<Rightarrow> maxAttempts a | Some v \<Rightarrow> v),
       lastAttempt := (case u_lastAttempt u of None \<Rightarrow> lastAttempt a | Some v \<Rightarrow> v)\<rparr>"

text \<open>The \<open>UPDATE ... SET ... WHERE id = ?\<close> built by the native \<open>update\<close>, on one row.\<close>

definition updateRow :: "env \<Rightarrow> updates \<Rightarrow> row \<Rightarrow> row" where
  "updateRow e u r =
     r\<lparr>qa_type := (case u_type u of None \<Rightarrow> qa_type r | Some v \<Rightarrow> v),
       qa_payload := (case u_payload u of None \<Rightarrow> qa_payload r | Some v \<Rightarrow> v),
       priority := (case u_priority u of None \<Rightarrow> priority r | Some v \<Rightarrow> v),
       attempts := (case u_attempts u of None \<Rightarrow> attempts r | Some v \<Rightarrow> v),
       maxAttempts := (case u_maxAttempts u of None \<Rightarrow> maxAttempts r | Some v \<Rightarrow> v),
       lastAttempt := (case u_lastAttempt u of None \<Rightarrow> lastAttempt r | Some v \<Rightarrow> v),
       updated_at := now e\<rparr>"

text \<open>
  \<open>update\<close>: the web version throws when no record has the id; the native statement
  succeeds on zero matching rows.
\<close>

definition update :: "platform \<Rightarrow> env \<Rightarrow> string \<Rightarrow> updates \<Rightarrow> storage \<Rightarrow> storage option" where
  "update pf e i u stg =
     (case pf of
        Web \<Rightarrow>
          (let queue = loadQueue e stg
           in case findIndex (\<lambda>a. qa_id a = i) queue of
                None \<Rightarrow> None
              | Some k \<Rightarrow> saveQueue e (queue[k := applyUpdates u (queue ! k)]) stg)
      | Native \<Rightarrow>
          (if db_ok e
           then Some (stg\<lparr>db_rows := map (\<lambda>r. if qa_id r = i then updateRow e u r else r) (db_rows stg)\<rparr>)
           else None))"

definition remove :: "platform \<Rightarrow> env \<Rightarrow> string \<Rightarrow> storage \<Rightarrow> storage option" where
  "remove pf e i stg =
     (case pf of
        Web \<Rightarrow> saveQueue e (filter (\<lambda>a. qa_id a \<noteq> i) (loadQueue e stg)) stg
      | Native \<Rightarrow>
          (if db_ok e
           then Some (stg\<lparr>db_rows := filter (\<lambda>r. qa_id r \<noteq> i) (db_rows stg)\<rparr>)
           else None))"

text \<open>
  The comparator handed to \<open>Array.prototype.sort\<close> by the web \<open>getQueue\<close>, which is also
  the order of the native \<open>ORDER BY priority DESC, created_at ASC\<close> (the strings
  \<open>toISOString()\<close> produces compare as their instants do). How SQLite orders rows that
  tie in both columns is not fixed by the query; the model keeps them in insertion order.
\<close>

definition compareActions :: "('a QueuedAction_scheme) \<Rightarrow> ('a QueuedAction_scheme) \<Rightarrow> int" where
  "compareActions a b =
     (if priority a \<noteq> priority b then priority b - priority a
      else createdAt a - createdAt b)"

text \<open>
  Sorting by a comparator, stable as \<open>Array.prototype.sort\<close> is: an element is placed
  before the first element of the sorted rest it does not compare greater than.
\<close>

fun insertBy :: "('a \<Rightarrow> 'a \<Rightarrow> int) \<Rightarrow> 'a \<Rightarrow> 'a list \<Rightarrow> 'a list" where
  "insertBy cmp x [] = [x]"
| "insertBy cmp x (y # ys) = (if cmp x y \<le> 0 then x # y # ys else y # insertBy cmp x ys)"

fun sortBy :: "('a \<Rightarrow> 'a \<Rightarrow> int) \<Rightarrow> 'a list \<Rightarrow> 'a list" where
  "sortBy cmp [] = []"
| "sortBy cmp (x # xs) = insertBy cmp x (sortBy cmp xs)"

text \<open>\<open>xs.slice(0, n)\<close>: a negative \<open>n\<close> counts from the end.\<close>

definition slice0 :: "int \<Rightarrow> 'a list \<Rightarrow> 'a list" where
  "slice0 n xs = (if 0 \<le> n then take (nat n) xs else take (nat (int (length xs) + n)) xs)"

text \<open>\<open>LIMIT n\<close> of SQLite: a negative \<open>n\<close> is no limit.\<close>

definition sqlLimit :: "int \<Rightarrow> 'a list \<Rightarrow> 'a list" where
  "sqlLimit n xs = (if 0 \<le> n then take (nat n) xs else xs)"

text \<open>\<open>getQueue(limit?)\<close>: an absent or zero limit is falsy and returns everything.\<close>

definition getQueue :: "platform \<Rightarrow> env \<Rightarrow> int option \<Rightarrow> storage \<Rightarrow> QueuedAction list" where
  "getQueue pf e limit stg =
     (case pf of
        Web \<Rightarrow>
          (let sortedQueue = sortBy compareActions (loadQueue e stg)
           in case limit of
                None \<Rightarrow> sortedQueue
              | Some n \<Rightarrow> (if n = 0 then sortedQueue else slice0 n sortedQueue))
      | Native \<Rightarrow>
          (if db_ok e
           then (let ordered = sortBy compareActions (db_rows stg)
                 in map action_of
                      (case limit of
                         None \<Rightarrow> ordered
                       | Some n \<Rightarrow> (if n = 0 then ordered else sqlLimit n ordered)))
           else []))"

definition incrementAttempts :: "platform \<Rightarrow> env \<Rightarrow> string \<Rightarrow> storage \<Rightarrow> storage option" where
  "incrementAttempts pf e i stg =
     (case pf of
        Web \<Rightarrow>
          (let queue = loadQueue e stg
           in case findIndex (\<lambda>a. qa_id a = i) queue of
                None \<Rightarrow> None
              | Some k \<Rightarrow>
                  saveQueue e
                    (queue[k := (queue ! k)\<lparr>attempts := attempts (queue ! k) + 1,
                                            lastAttempt := Some (now e)\<rparr>]) stg)
      | Native \<Rightarrow>
          (if db_ok e
           then Some (stg\<lparr>db_rows :=
                  map (\<lambda>r. if qa_id r = i
                            then r\<lparr>attempts := attempts r + 1, lastAttempt := Some (now e),
                                   updated_at := now e\<rparr>
                            else r) (db_rows stg)\<rparr>)
           else None))"

text \<open>\<open>removeFailedActions\<close> never throws: the number it returns and the queue it leaves.\<close>

definition removeFailedActions :: "platform \<Rightarrow> env \<Rightarrow> storage \<Rightarrow> nat \<times> storage" where
  "removeFailedActions pf e stg =
     (case pf of
        Web \<Rightarrow>
          (let queue = loadQueue e stg;
               failedActions = filter (\<lambda>a. attempts a \<ge> maxAttempts a) queue;
               remainingQueue = filter (\<lambda>a. attempts a < maxAttempts a) queue
           in case saveQueue e remainingQueue stg of
                None \<Rightarrow> (0, stg)
              | Some stg' \<Rightarrow> (length failedActions, stg'))
      | Native \<Rightarrow>
          (if db_ok e
           then (length (filter (\<lambda>r. attempts r \<ge> maxAttempts r) (db_rows stg)),
                 stg\<lparr>db_rows := filter (\<lambda>r. \<not> attempts r \<ge> maxAttempts r) (db_rows stg)\<rparr>)
           else (0, stg)))"

text \<open>The records the persisted queue holds, whatever the next read will do.\<close>

definition persisted :: "platform \<Rightarrow> storage \<Rightarrow> QueuedAction list" where
  "persisted pf stg =
     (case pf of
        Web \<Rightarrow> (case web_item stg of None \<Rightarrow> [] | Some q \<Rightarrow> q)
      | Native \<Rightarrow> map action_of (db_rows stg))"

subsection \<open>The two queue calls of the Time Truth Service\<close>

definition queueTimeEntry :: "platform \<Rightarrow> env \<Rightarrow> TimeEntry \<Rightarrow> storage \<Rightarrow> storage option" where
  "queueTimeEntry pf e t stg =
     (case enqueue pf e \<lparr>na_type = TIME_ENTRY, na_payload = EntryPayload t, na_priority = 10,
                         na_maxAttempts = None\<rparr> stg of
        None \<Rightarrow> None
      | Some (_, stg') \<Rightarrow> Some stg')"

definition updateTimeEntry :: "platform \<Rightarrow> env \<Rightarrow> TimeEntry \<Rightarrow> storage \<Rightarrow> storage option" where
  "updateTimeEntry pf e t stg =
     update pf e (entry_id t)
       \<lparr>u_type = Some TIME_ENTRY, u_payload = Some (EntryPayload t), u_priority = Some 10,
        u_attempts = None, u_maxAttempts = None, u_lastAttempt = None\<rparr> stg"

section \<open>IEEE double arithmetic\<close>

text \<open>
  A JavaScript number is a finite double, an infinity or NaN. The sign of zero is not
  modelled.
\<close>

datatype jsnum = Num rat | PosInf | NegInf | NaN

definition pow2 :: "int \<Rightarrow> rat" where
  "pow2 k = (if 0 \<le> k then 2 ^ nat k else 1 / 2 ^ nat (- k))"

text \<open>
  A positive rational is brought into the range of a 53-bit significand by halving
  (\<open>scaleDown\<close>, at most up to the largest exponent 971) or doubling (\<open>scaleUp\<close>, at
  most down to the exponent -1074 of the subnormal numbers); the second component counts
  the power of two taken out.
\<close>

function scaleDown :: "rat \<Rightarrow> int \<Rightarrow> rat \<times> int" where
  "scaleDown x k = (if 2 ^ 53 \<le> x \<and> k < 971 then scaleDown (x / 2) (k + 1) else (x, k))"
  by pat_completeness auto
termination
  by (relation "measure (\<lambda>(x, k). nat (971 - k))") auto

function scaleUp :: "rat \<Rightarrow> int \<Rightarrow> rat \<times> int" where
  "scaleUp x k = (if x < 2 ^ 52 \<and> - 1074 < k then scaleUp (x * 2) (k - 1) else (x, k))"
  by pat_completeness auto
termination
  by (relation "measure (\<lambda>(x, k). nat (k + 1074))") auto

declare scaleDown.simps [simp del] scaleUp.simps [simp del]

text \<open>Rounding to the nearest integer, a tie to the even one.\<close>

definition roundHalfEven :: "rat \<Rightarrow> int" where
  "roundHalfEven x =
     (let f = \<lfloor>x\<rfloor>; r = x - of_int f
      in if r < 1 / 2 then f else if 1 / 2 < r then f + 1 else if even f then f else f + 1)"

text \<open>The nearest number of the form \<open>m * 2^k\<close> with a 53-bit \<open>m\<close>, for a positive rational.\<close>

definition nearest :: "rat \<Rightarrow> rat" where
  "nearest a =
     (case scaleDown a 0 of (y, k) \<Rightarrow>
        (case scaleUp y k of (z, k') \<Rightarrow> of_int (roundHalfEven z) * pow2 k'))"

text \<open>
  The double an exact result is rounded to (round to nearest, ties to even): an infinity
  from \<open>2^1024\<close> on.
\<close>

definition toDouble :: "rat \<Rightarrow> jsnum" where
  "toDouble x =
     (if x = 0 then Num 0
      else if 2 ^ 1024 \<le> nearest \<bar>x\<bar> then (if 0 < x then PosInf else NegInf)
      else Num (if 0 < x then nearest \<bar>x\<bar> else - nearest \<bar>x\<bar>))"

fun js_sub :: "jsnum \<Rightarrow> jsnum \<Rightarrow> jsnum" where
  "js_sub (Num a) (Num b) = toDouble (a - b)"
| "js_sub NaN _ = NaN"
| "js_sub _ NaN = NaN"
| "js_sub PosInf PosInf = NaN"
| "js_sub NegInf NegInf = NaN"
| "js_sub PosInf _ = PosInf"
| "js_sub NegInf _ = NegInf"
| "js_sub (Num a) PosInf = NegInf"
| "js_sub (Num a) NegInf = PosInf"

text \<open>
  Division by a finite number (the store divides by the constant 60000 only; a zero divisor
  is taken as +0) and multiplication by a finite number (the pay rate).
\<close>

fun js_div :: "jsnum \<Rightarrow> rat \<Rightarrow> jsnum" where
  "js_div (Num a) d =
     (if d = 0 then (if 0 < a then PosInf else if a < 0 then NegInf else NaN)
      else toDouble (a / d))"
| "js_div PosInf d = (if 0 \<le> d then PosInf else NegInf)"
| "js_div NegInf d = (if 0 \<le> d then NegInf else PosInf)"
| "js_div NaN d = NaN"

fun js_mul :: "jsnum \<Rightarrow> rat \<Rightarrow> jsnum" where
  "js_mul (Num a) b = toDouble (a * b)"
| "js_mul PosInf b = (if 0 < b then PosInf else if b < 0 then NegInf else NaN)"
| "js_mul NegInf b = (if 0 < b then NegInf else if b < 0 then PosInf else NaN)"
| "js_mul NaN b = NaN"

text \<open>\<open>Math.floor\<close>: the floor of a double is a double; infinities and NaN pass through.\<close>

fun js_floor :: "jsnum \<Rightarrow> jsnum" where
  "js_floor (Num a) = Num (of_int \<lfloor>a\<rfloor>)"
| "js_floor PosInf = PosInf"
| "js_floor NegInf = NegInf"
| "js_floor NaN = NaN"

section \<open>Compliance Store\<close>

record ComplianceState =
  appMode :: AppMode
  currentSessionEarnings :: jsnum
  activeTask :: "RemoteTask option"
  currentTimeEntry :: "TimeEntry option"
  isPaused :: bool
  pausedAt :: "int option"
  totalPauseDuration :: int
  sessionStartTime :: "int option"
  monotonicSessionStart :: "rat option"

definition initialState :: ComplianceState where
  "initialState =
     \<lparr>appMode = PASSIVE, currentSessionEarnings = Num 0, activeTask = None,
      currentTimeEntry = None, isPaused = False, pausedAt = None, totalPauseDuration = 0,
      sessionStartTime = None, monotonicSessionStart = None\<rparr>"

text \<open>
  The three ways \<open>startTunnel\<close> returns: \<open>null\<close> after logging that a session is already
  active, \<open>null\<close> from the catch block, or the created entry.
\<close>

datatype start_result = AlreadyActive | StartFailed | Started TimeEntry

datatype end_result = NoActiveSession | EndFailed | Ended TimeEntry

definition startTunnel ::
  "platform \<Rightarrow> env \<Rightarrow> RemoteTask \<Rightarrow> string \<Rightarrow> ComplianceState \<times> storage
     \<Rightarrow> start_result \<times> ComplianceState \<times> storage" where
  "startTunnel pf e task uid w =
     (case w of (state, stg) \<Rightarrow>
        if appMode state = ACTIVE \<or> currentTimeEntry state \<noteq> None
        then (AlreadyActive, state, stg)
        else
          (case captureTimeEvent pf e CLOCK_IN of
             None \<Rightarrow> (StartFailed, state, stg)
           | Some timeEvent \<Rightarrow>
               (let timeEntry =
                      \<lparr>entry_id = uuid_store e, userId = uid,
                       startTime = wallClockTime timeEvent, endTime = None,
                       entry_type = REMOTE_TASK,
                       monotonicStart = ev_monotonicTime timeEvent, monotonicEnd = None,
                       deviceBootTime = ev_deviceBootTime timeEvent,
                       entry_deviceId = ev_deviceId timeEvent,
                       isSynced = False, syncAttempts = 0, lastSyncAttempt = None,
                       remoteTaskId = Some (task_id task),
                       entry_createdAt = now e, entry_updatedAt = now e\<rparr>
                in case queueTimeEntry pf e timeEntry stg of
                     None \<Rightarrow> (StartFailed, state, stg)
                   | Some stg' \<Rightarrow>
                       (Started timeEntry,
                        state\<lparr>appMode := ACTIVE,
                              activeTask := Some task,
                              currentTimeEntry := Some timeEntry,
                              currentSessionEarnings := Num 0,
                              sessionStartTime := Some (wallClockTime timeEvent),
                              monotonicSessionStart := Some (ev_monotonicTime timeEvent),
                              isPaused := False,
                              pausedAt := None,
                              totalPauseDuration := 0\<rparr>,
                        stg'))))"

text \<open>A \<open>null\<close> in arithmetic is 0.\<close>

definition num_of :: "rat option \<Rightarrow> rat" where
  "num_of x = (case x of None \<Rightarrow> 0 | Some v \<Rightarrow> v)"

definition endTunnel ::
  "platform \<Rightarrow> env \<Rightarrow> ComplianceState \<times> storage \<Rightarrow> end_result \<times> ComplianceState \<times> storage" where
  "endTunnel pf e w =
     (case w of (state, stg) \<Rightarrow>
        (case (currentTimeEntry state, activeTask state) of
           (Some entry, Some task) \<Rightarrow>
             if appMode state \<noteq> ACTIVE then (NoActiveSession, state, stg)
             else
               (case captureTimeEvent pf e CLOCK_OUT of
                  None \<Rightarrow> (EndFailed, state, stg)
                | Some timeEvent \<Rightarrow>
                    (let elapsedMs = js_sub (Num (ev_monotonicTime timeEvent))
                                       (Num (num_of (monotonicSessionStart state)));
                         elapsedMinutes =
                           js_div (js_sub elapsedMs (Num (of_int (totalPauseDuration state)))) 60000;
                         earnings = js_floor (js_mul elapsedMinutes (payRate task));
                         completedEntry =
                           entry\<lparr>endTime := Some (wallClockTime timeEvent),
                                 monotonicEnd := Some (ev_monotonicTime timeEvent),
                                 entry_updatedAt := now e\<rparr>
                     in case updateTimeEntry pf e completedEntry stg of
                          None \<Rightarrow> (EndFailed, state, stg)
                        | Some stg' \<Rightarrow>
                            (Ended completedEntry,
                             state\<lparr>appMode := PASSIVE,
                                   activeTask := None,
                                   currentTimeEntry := None,
                                   currentSessionEarnings := earnings,
                                   isPaused := False,
                                   pausedAt := None,
                                   totalPauseDuration := 0,
                                   sessionStartTime := None,
                                   monotonicSessionStart := None\<rparr>,
                             stg')))
         | _ \<Rightarrow> (NoActiveSession, state, stg)))"

definition pauseSession :: "env \<Rightarrow> ComplianceState \<Rightarrow> ComplianceState" where
  "pauseSession e state =
     (if appMode state \<noteq> ACTIVE \<or> isPaused state then state
      else state\<lparr>isPaused := True, pausedAt := Some (now e)\<rparr>)"

definition resumeSession :: "env \<Rightarrow> ComplianceState \<Rightarrow> ComplianceState" where
  "resumeSession e state =
     (case pausedAt state of
        None \<Rightarrow> state
      | Some p \<Rightarrow>
          if appMode state \<noteq> ACTIVE \<or> \<not> isPaused state then state
          else
            (let pauseDuration = now e - p
             in state\<lparr>isPaused := False, pausedAt := None,
                      totalPauseDuration := totalPauseDuration state + pauseDuration\<rparr>))"

text \<open>
  \<open>updateEarnings\<close>: \<open>!state.monotonicSessionStart\<close> is true for \<open>null\<close> and for 0;
  \<open>new Date(null).getTime()\<close> is 0.
\<close>

definition updateEarnings :: "env \<Rightarrow> ComplianceState \<Rightarrow> ComplianceState" where
  "updateEarnings e state =
     (case activeTask state of
        None \<Rightarrow> state
      | Some task \<Rightarrow>
          if appMode state \<noteq> ACTIVE \<or> num_of (monotonicSessionStart state) = 0 \<or> isPaused state
          then state
          else
            (let sessionStart = (case sessionStartTime state of None \<Rightarrow> 0 | Some t \<Rightarrow> t);
                 elapsedMs = js_sub (js_sub (Num (of_int (now e))) (Num (of_int sessionStart)))
                               (Num (of_int (totalPauseDuration state)));
                 elapsedMinutes = js_div elapsedMs 60000;
                 earnings = js_floor (js_mul elapsedMinutes (payRate task))
             in state\<lparr>currentSessionEarnings := earnings\<rparr>))"

definition reset :: "ComplianceState \<Rightarrow> ComplianceState" where
  "reset state =
     state\<lparr>appMode := PASSIVE, currentSessionEarnings := Num 0, activeTask := None,
           currentTimeEntry := None, isPaused := False, pausedAt := None,
           totalPauseDuration := 0, sessionStartTime := None, monotonicSessionStart := None\<rparr>"

text \<open>
  \<open>forceEndSession\<close>: the capture and the queue update are attempted only when there is a
  current entry; an error of either is caught and logged; \<open>reset\<close> follows in every case.
\<close>

definition forceEndSession ::
  "platform \<Rightarrow> env \<Rightarrow> ComplianceState \<times> storage \<Rightarrow> ComplianceState \<times> storage" where
  "forceEndSession pf e w =
     (case w of (state, stg) \<Rightarrow>
        (let stg' =
               (case currentTimeEntry state of
                  None \<Rightarrow> stg
                | Some entry \<Rightarrow>
                    (case captureTimeEvent pf e FORCE_CLOCK_OUT of
                       None \<Rightarrow> stg
                     | Some timeEvent \<Rightarrow>
                         (let completedEntry =
                                entry\<lparr>endTime := Some (wallClockTime timeEvent),
                                      monotonicEnd := Some (ev_monotonicTime timeEvent),
                                      entry_updatedAt := now e\<rparr>
                          in case updateTimeEntry pf e completedEntry stg of
                               None \<Rightarrow> stg
                             | Some s \<Rightarrow> s)))
         in (reset state, stg')))"

section \<open>Example inputs\<close>

text \<open>
  A stand-in for \<open>JSON.stringify\<close> and one for the digest, used where a property is run
  on concrete inputs: the numeric fields of the payload printed in decimal (the monotonic
  time rounded down) with the device id, and the reversed input.
\<close>

definition digitChar :: "nat \<Rightarrow> char" where
  "digitChar d = (''0123456789'' ! d)"

fun showNat :: "nat \<Rightarrow> string" where
  "showNat n = (if n < 10 then [digitChar n] else showNat (n div 10) @ [digitChar (n mod 10)])"

declare showNat.simps [simp del]

definition showInt :: "int \<Rightarrow> string" where
  "showInt i = (if i < 0 then CHR ''-'' # showNat (nat (- i)) else showNat (nat i))"

definition exampleStringify :: "TimePayload \<Rightarrow> string" where
  "exampleStringify p =
     ''{userTime:'' @ showInt (userTime p) @ '',monotonicTime:'' @ showInt \<lfloor>monotonicTime p\<rfloor> @
     '',deviceId:'' @ deviceId p @ '',timestamp:'' @ showInt (timestamp p) @ ''}''"

definition exampleDigest :: "string \<Rightarrow> string option" where
  "exampleDigest s = Some (rev s)"

text \<open>An environment in which nothing fails, at wall-clock time \<open>t\<close> with provider answer \<open>up\<close>.\<close>

definition exampleEnv :: "int \<Rightarrow> rat option \<Rightarrow> env" where
  "exampleEnv t up =
     \<lparr>now = t, systemUptime = up, performanceNow = None,
      installationId = Some ''device-1'', webDeviceId = Some ''web_1'',
      modelName = Some ''Pixel'', deviceOsVersion = Some ''14'',
      nativeApplicationVersion = Some ''1.0.0'', userAgent = Some ''Mozilla'',
      uuid_store = ''entry-1'', uuid_queue = ''action-1'',
      storage_read_ok = True, storage_write_ok = True, db_ok = True,
      stringify = exampleStringify, digest = exampleDigest\<rparr>"

definition exampleTask :: RemoteTask where
  "exampleTask = \<lparr>task_id = ''task-1'', task_name = ''Survey'', payRate = 25,
                   maxDuration = 10, estimatedDuration = 3\<rparr>"

definition emptyStorage :: storage where
  "emptyStorage = \<lparr>web_item = None, db_rows = []\<rparr>"

text \<open>
  The store and the queue after a session was started on a native device whose uptime was
  \<open>up\<close> seconds, at wall-clock time 1700000000000.
\<close>

definition startedWorld :: "rat \<Rightarrow> ComplianceState \<times> storage" where
  "startedWorld up =
     snd (startTunnel Native (exampleEnv 1700000000000 (Some up)) exampleTask ''user-1''
            (initialState, emptyStorage))"

section \<open>The order of the queue\<close>

text \<open>
  \<open>precedes a b\<close>: \<open>a\<close> may stand before \<open>b\<close> in a list ordered by priority descending,
  then creation time ascending.
\<close>

definition precedes :: "('a QueuedAction_scheme) \<Rightarrow> ('b QueuedAction_scheme) \<Rightarrow> bool" where
  "precedes a b = (priority a > priority b \<or> (priority a = priority b \<and> createdAt a \<le> createdAt b))"

text \<open>Two records tie when neither priority nor creation time tells them apart.\<close>

definition ties :: "('a QueuedAction_scheme) \<Rightarrow> ('b QueuedAction_scheme) \<Rightarrow> bool" where
  "ties a b = (priority a = priority b \<and> createdAt a = createdAt b)"

definition exampleAction :: "int \<Rightarrow> new_action" where
  "exampleAction p = \<lparr>na_type = TASK_COMPLETION, na_payload = OtherPayload ''done'',
                       na_priority = p, na_maxAttempts = None\<rparr>"

text \<open>A web queue holding one pending record, which no purge should touch.\<close>

definition pendingStorage :: storage where
  "pendingStorage =
     \<lparr>web_item = Some [\<lparr>qa_id = ''action-1'', qa_type = TIME_ENTRY,
                          qa_payload = OtherPayload ''entry'', priority = 10, attempts = 0,
                          maxAttempts = 5, lastAttempt = None, createdAt = 1000\<rparr>],
      db_rows = []\<rparr>"

text \<open>
  A native environment whose monotonic provider rejects while \<open>performance.now()\<close> answers
  5000000, and one whose provider answers 5000 s.
\<close>

definition fallbackEnv :: env where
  "fallbackEnv = (exampleEnv 1700000000000 None)\<lparr>performanceNow := Some 5000000\<rparr>"

definition healthyEnv :: env where
  "healthyEnv = exampleEnv 1700000000000 (Some 5000)"

text \<open>A capture with its \<open>payload.userTime\<close> replaced.\<close>

definition withUserTime :: "int \<Rightarrow> SignedTimeCapture \<Rightarrow> SignedTimeCapture" where
  "withUserTime u c = c\<lparr>payload := (payload c)\<lparr>userTime := u\<rparr>\<rparr>"

text \<open>A completed entry with the given wall-clock start and end and monotonic start and end.\<close>

definition exampleEntry :: "int \<Rightarrow> int \<Rightarrow> rat \<Rightarrow> rat option \<Rightarrow> TimeEntry" where
  "exampleEntry s en ms me =
     \<lparr>entry_id = ''entry-1'', userId = ''user-1'', startTime = s, endTime = Some en,
      entry_type = REMOTE_TASK, monotonicStart = ms, monotonicEnd = me,
      deviceBootTime = 0, entry_deviceId = ''device-1'', isSynced = False, syncAttempts = 0,
      lastSyncAttempt = None, remoteTaskId = Some ''task-1'', entry_createdAt = s,
      entry_updatedAt = en\<rparr>"

section \<open>Properties\<close>

lemmas capture_defs = captureTimeEvent_def getMonotonicTimeInfo_def getMonotonicTime_def
  calculateBootTime_def timeClip_def getDeviceInfo_def or_default_def getDeviceId_def

lemmas queue_defs = queueTimeEntry_def updateTimeEntry_def enqueue_def update_def insertRow_def
  newQueuedAction_def row_of_def loadQueue_def saveQueue_def updateRow_def applyUpdates_def

lemmas example_defs = startedWorld_def exampleEnv_def exampleTask_def emptyStorage_def
  initialState_def

subsection \<open>Evaluating double arithmetic\<close>

lemma floor_numeral_div:
  "\<lfloor>(numeral a :: rat) / numeral b\<rfloor> = numeral a div numeral b"
  using floor_divide_of_int_eq [of "numeral a" "numeral b", where ?'a = rat] by simp

lemmas double_eval = toDouble_def nearest_def scaleDown.simps scaleUp.simps roundHalfEven_def
  pow2_def Let_def floor_numeral_div









subsection \<open>Earnings at the end of a session\<close>





lemma findIndex_None: "findIndex P xs = None \<longleftrightarrow> (\<forall>x \<in> set xs. \<not> P x)"
  by (induction xs) (auto split: option.splits)

lemma loadQueue_cases: "loadQueue e stg = [] \<or> loadQueue e stg = persisted Web stg"
  by (cases "web_item stg") (simp_all add: loadQueue_def persisted_def)

lemma loadQueue_ids:
  assumes "\<forall>a \<in> set (persisted Web stg). qa_id a \<noteq> i"
  shows "\<forall>x \<in> set (loadQueue e stg). qa_id x \<noteq> i"
  using loadQueue_cases [of e stg] assms by auto

text \<open>
  On the web a session that \<open>startTunnel\<close> started is never ended by \<open>endTunnel\<close>: the
  queue record carries the id drawn by the queue, the update looks for the id of the entry,
  finds no record and throws.
\<close>

lemma web_endTunnel_after_startTunnel:
  assumes "startTunnel Web e1 task uid (state, stg) = (Started t, st1, s1)"
    and "uuid_queue e1 \<noteq> uuid_store e1"
    and "\<forall>a \<in> set (persisted Web stg). qa_id a \<noteq> uuid_store e1"
  shows "endTunnel Web e2 (st1, s1) = (EndFailed, st1, s1)"
proof -
  from assms(1) have t: "entry_id t = uuid_store e1"
    and c: "currentTimeEntry st1 = Some t" and a: "activeTask st1 = Some task"
    and m: "appMode st1 = ACTIVE"
    and q: "queueTimeEntry Web e1 t stg = Some s1"
    by (auto simp: startTunnel_def Let_def split: if_splits option.splits)
  from q have s1: "web_item s1 = Some (loadQueue e1 stg @
      [newQueuedAction e1 \<lparr>na_type = TIME_ENTRY, na_payload = EntryPayload t, na_priority = 10,
                            na_maxAttempts = None\<rparr>])"
    by (auto simp: queueTimeEntry_def enqueue_def saveQueue_def Let_def
          split: option.splits if_splits)
  have old: "\<forall>x \<in> set (loadQueue e1 stg). qa_id x \<noteq> uuid_store e1"
    using assms(3) by (rule loadQueue_ids)
  have new: "\<forall>x \<in> set (persisted Web s1). qa_id x \<noteq> uuid_store e1"
    using old assms(2) s1 by (simp add: persisted_def newQueuedAction_def)
  have "\<forall>x \<in> set (loadQueue e2 s1). qa_id x \<noteq> uuid_store e1"
    using new by (rule loadQueue_ids)
  then have "findIndex (\<lambda>x. qa_id x = uuid_store e1) (loadQueue e2 s1) = None"
    by (simp add: findIndex_None)
  then have u: "updateTimeEntry Web e2 t' s1 = None" if "entry_id t' = uuid_store e1" for t'
    using that by (simp add: updateTimeEntry_def update_def Let_def)
  show ?thesis
    using c a m t u
    by (auto simp: endTunnel_def Let_def split: option.splits)
qed




subsection \<open>Starting a session\<close>

lemma enqueue_persisted:
  assumes "enqueue pf e a stg = Some (q, stg')"
  shows "q \<in> set (persisted pf stg') \<and> q = newQueuedAction e a"
proof (cases pf)
  case Native
  with assms show ?thesis
    by (auto simp: enqueue_def insertRow_def persisted_def action_of_def row_of_def
          newQueuedAction_def Let_def split: if_splits)
next
  case Web
  with assms show ?thesis
    by (auto simp: enqueue_def saveQueue_def persisted_def Let_def split: if_splits)
qed

lemma queueTimeEntry_persisted:
  assumes "queueTimeEntry pf e t stg = Some stg'"
  shows "\<exists>a \<in> set (persisted pf stg').
           qa_payload a = EntryPayload t \<and> qa_type a = TIME_ENTRY \<and> priority a = 10"
proof -
  from assms obtain q where
    q: "enqueue pf e \<lparr>na_type = TIME_ENTRY, na_payload = EntryPayload t, na_priority = 10,
                       na_maxAttempts = None\<rparr> stg = Some (q, stg')"
    by (auto simp: queueTimeEntry_def split: option.splits)
  note a = enqueue_persisted [OF q, THEN conjunct1]
  from enqueue_persisted [OF q, THEN conjunct2]
  have b: "qa_payload q = EntryPayload t \<and> qa_type q = TIME_ENTRY \<and> priority q = 10"
    by (simp add: newQueuedAction_def)
  from b a show ?thesis by (rule bexI)
qed

lemma startTunnel_cases:
  assumes "startTunnel pf e task uid (state, stg) = (r, state', stg')"
  shows "(r = AlreadyActive \<and> state' = state \<and> stg' = stg)
       \<or> (r = StartFailed \<and> state' = state \<and> stg' = stg)
       \<or> (\<exists>ev t. r = Started t \<and> captureTimeEvent pf e CLOCK_IN = Some ev \<and>
             queueTimeEntry pf e t stg = Some stg' \<and>
             appMode state' = ACTIVE \<and> currentTimeEntry state' = Some t)"
  using assms
  by (auto simp: startTunnel_def Let_def split: if_splits option.splits)

text \<open>
  C3. \<open>startTunnel\<close> changes the session state only together with a successful enqueue:
  when the capture fails, or the enqueue of every entry fails, or no entry is returned, the
  state and the persisted queue are exactly what they were; and when the state did change,
  an entry was returned, the mode is ACTIVE, and the persisted queue holds a TIME_ENTRY
  record of priority 10 whose payload is that entry.
\<close>

theorem C3_startTunnel_atomic:
  assumes "startTunnel pf e task uid (state, stg) = (r, state', stg')"
  shows "(captureTimeEvent pf e CLOCK_IN = None \<longrightarrow> state' = state \<and> stg' = stg)
       \<and> ((\<forall>t. queueTimeEntry pf e t stg = None) \<longrightarrow> state' = state \<and> stg' = stg)
       \<and> ((\<forall>t. r \<noteq> Started t) \<longrightarrow> state' = state \<and> stg' = stg)
       \<and> (state' \<noteq> state \<longrightarrow>
            (\<exists>t. r = Started t \<and> queueTimeEntry pf e t stg = Some stg' \<and>
                 appMode state' = ACTIVE \<and> currentTimeEntry state' = Some t \<and>
                 (\<exists>a \<in> set (persisted pf stg').
                     qa_payload a = EntryPayload t \<and> qa_type a = TIME_ENTRY \<and> priority a = 10)))"
proof -
  from startTunnel_cases [OF assms]
  consider (unchanged) "state' = state" "stg' = stg" "\<forall>t. r \<noteq> Started t"
    | (started) ev t where "r = Started t" "captureTimeEvent pf e CLOCK_IN = Some ev"
        "queueTimeEntry pf e t stg = Some stg'" "appMode state' = ACTIVE"
        "currentTimeEntry state' = Some t"
    by auto
  then show ?thesis
  proof cases
    case unchanged
    then show ?thesis by simp
  next
    case started
    with queueTimeEntry_persisted [OF started(3)] show ?thesis by auto
  qed
qed

text \<open>
  Three runs from the initial state on a native device: the database rejects the insert,
  the monotonic source is missing, and nothing fails.
\<close>

theorem C3_startTunnel_atomic_witness:
  "startTunnel Native ((exampleEnv 1700000000000 (Some 5000))\<lparr>db_ok := False\<rparr>) exampleTask
      ''user-1'' (initialState, emptyStorage) = (StartFailed, initialState, emptyStorage)
   \<and> startTunnel Native (exampleEnv 1700000000000 None) exampleTask
      ''user-1'' (initialState, emptyStorage) = (StartFailed, initialState, emptyStorage)
   \<and> appMode (fst (startedWorld 5000)) = ACTIVE
   \<and> map qa_type (persisted Native (snd (startedWorld 5000))) = [TIME_ENTRY]
   \<and> map (Some \<circ> qa_payload) (persisted Native (snd (startedWorld 5000)))
        = [map_option EntryPayload (currentTimeEntry (fst (startedWorld 5000)))]"
  using C3_startTunnel_atomic [of Native "(exampleEnv 1700000000000 (Some 5000))\<lparr>db_ok := False\<rparr>"
          exampleTask "''user-1''" initialState emptyStorage StartFailed initialState emptyStorage]
  by (simp add: startTunnel_def example_defs capture_defs queue_defs persisted_def
        action_of_def Let_def)

text \<open>
  C4. In a state whose mode is ACTIVE, \<open>startTunnel\<close> returns through its
  already-active branch and leaves the session state and the persisted queue as they were.
\<close>

theorem C4_startTunnel_already_active:
  assumes "appMode state = ACTIVE"
  shows "startTunnel pf e task uid (state, stg) = (AlreadyActive, state, stg)"
  using assms by (simp add: startTunnel_def)

theorem C4_startTunnel_already_active_witness:
  "appMode (fst (startedWorld 5000)) = ACTIVE
   \<and> startTunnel Native (exampleEnv 1700000060000 (Some 5060)) exampleTask ''user-1''
        (startedWorld 5000) = (AlreadyActive, startedWorld 5000)"
proof -
  have a: "appMode (fst (startedWorld 5000)) = ACTIVE"
    by (simp add: startTunnel_def example_defs capture_defs queue_defs Let_def)
  from C4_startTunnel_already_active [OF a, of Native "exampleEnv 1700000060000 (Some 5060)"
         exampleTask "''user-1''" "snd (startedWorld 5000)"]
  show ?thesis using a by simp
qed

subsection \<open>Forced end\<close>

lemma reset_initial: "reset state = initialState"
  by (simp add: reset_def initialState_def)

text \<open>
  C5. \<open>forceEndSession\<close> returns normally from every state and in every environment, also
  when the capture or the queue update fails, and the session state it leaves is the
  initial state, whose mode is PASSIVE; a failed capture or update leaves the persisted
  queue as it was.
\<close>

theorem C5_forceEndSession_passive:
  "fst (forceEndSession pf e (state, stg)) = initialState
   \<and> appMode (fst (forceEndSession pf e (state, stg))) = PASSIVE
   \<and> (captureTimeEvent pf e FORCE_CLOCK_OUT = None \<longrightarrow> snd (forceEndSession pf e (state, stg)) = stg)
   \<and> ((\<forall>t. updateTimeEntry pf e t stg = None) \<longrightarrow> snd (forceEndSession pf e (state, stg)) = stg)"
  by (auto simp: forceEndSession_def reset_initial initialState_def Let_def split: option.splits)

text \<open>A running session forced to end while the monotonic source and the queue fail.\<close>

theorem C5_forceEndSession_passive_witness:
  "forceEndSession Web ((exampleEnv 1700000060000 None)\<lparr>storage_write_ok := False\<rparr>)
      (fst (startedWorld 5000), emptyStorage) = (initialState, emptyStorage)
   \<and> forceEndSession Native ((exampleEnv 1700000060000 None)\<lparr>db_ok := False\<rparr>)
      (startedWorld 5000) = (initialState, snd (startedWorld 5000))"
  using C5_forceEndSession_passive [of Native "(exampleEnv 1700000060000 None)\<lparr>db_ok := False\<rparr>"
          "fst (startedWorld 5000)" "snd (startedWorld 5000)"]
        C5_forceEndSession_passive [of Web "(exampleEnv 1700000060000 None)\<lparr>storage_write_ok := False\<rparr>"
          "fst (startedWorld 5000)" emptyStorage]
  by (simp add: forceEndSession_def reset_initial startTunnel_def example_defs capture_defs
        queue_defs Let_def)

subsection \<open>The periodic recomputation of earnings\<close>

text \<open>
  C1. For a running session (mode ACTIVE, a task, a non-zero monotonic start, not paused)
  \<open>updateEarnings\<close> stores \<open>Math.floor\<close> of (wall-clock now - wall-clock session start -
  total pause duration) / 60000 times the pay rate, in double arithmetic: a function of
  wall-clock readings, which is the same for every non-zero monotonic start.
\<close>

theorem C1_updateEarnings_wall_clock:
  assumes "appMode state = ACTIVE" and "activeTask state = Some task"
    and "monotonicSessionStart state = Some m" and "m \<noteq> 0" and "\<not> isPaused state"
    and "sessionStartTime state = Some t0" and "m' \<noteq> 0"
  shows "currentSessionEarnings (updateEarnings e state) =
           js_floor (js_mul (js_div (js_sub
             (js_sub (Num (of_int (now e))) (Num (of_int t0)))
             (Num (of_int (totalPauseDuration state)))) 60000) (payRate task))
       \<and> updateEarnings e (state\<lparr>monotonicSessionStart := Some m'\<rparr>) =
           (updateEarnings e state)\<lparr>monotonicSessionStart := Some m'\<rparr>"
  using assms by (simp add: updateEarnings_def num_of_def Let_def)

text \<open>
  A session started at uptime 5000 s. With the monotonic source at 5180 s in both runs, the
  recomputation yields 75 cents when the wall clock is 3 minutes past the start and 1575
  cents when the wall clock was set one hour ahead.
\<close>

theorem C1_updateEarnings_wall_clock_witness:
  "currentSessionEarnings
     (updateEarnings (exampleEnv 1700000180000 (Some 5180)) (fst (startedWorld 5000))) = Num 75
   \<and> currentSessionEarnings
     (updateEarnings (exampleEnv 1700003780000 (Some 5180)) (fst (startedWorld 5000)))
       = Num 1575"
proof -
  have s: "appMode (fst (startedWorld 5000)) = ACTIVE"
    "activeTask (fst (startedWorld 5000)) = Some exampleTask"
    "monotonicSessionStart (fst (startedWorld 5000)) = Some 5000000"
    "\<not> isPaused (fst (startedWorld 5000))"
    "sessionStartTime (fst (startedWorld 5000)) = Some 1700000000000"
    "totalPauseDuration (fst (startedWorld 5000)) = 0"
    by (simp_all add: startTunnel_def example_defs capture_defs queue_defs Let_def)
  have n: "(5000000::rat) \<noteq> 0" by simp
  from C1_updateEarnings_wall_clock [OF s(1) s(2) s(3) n s(4) s(5) n,
         of "exampleEnv 1700000180000 (Some 5180)"]
       C1_updateEarnings_wall_clock [OF s(1) s(2) s(3) n s(4) s(5) n,
         of "exampleEnv 1700003780000 (Some 5180)"]
  show ?thesis by (simp add: s(6) exampleEnv_def exampleTask_def double_eval)
qed

subsection \<open>The order of \<open>getQueue\<close>\<close>

lemma compareActions_le: "compareActions a b \<le> 0 \<longleftrightarrow> precedes a b"
  by (auto simp: compareActions_def precedes_def)

lemma precedes_total: "\<not> precedes a b \<Longrightarrow> precedes b a"
  by (auto simp: precedes_def)

lemma precedes_trans: "precedes a b \<Longrightarrow> precedes b c \<Longrightarrow> precedes a c"
  by (auto simp: precedes_def)

lemma set_insertBy: "set (insertBy cmp x xs) = insert x (set xs)"
  by (induction xs) auto

lemma mset_insertBy: "mset (insertBy cmp x xs) = add_mset x (mset xs)"
  by (induction xs) auto

lemma mset_sortBy: "mset (sortBy cmp xs) = mset xs"
  by (induction xs) (auto simp: mset_insertBy)

lemma sorted_insertBy:
  assumes "sorted_wrt precedes xs"
  shows "sorted_wrt precedes (insertBy compareActions x xs)"
  using assms
proof (induction xs)
  case Nil
  then show ?case by simp
next
  case (Cons y ys)
  show ?case
  proof (cases "compareActions x y \<le> 0")
    case True
    then have xy: "precedes x y" by (simp add: compareActions_le)
    from Cons.prems have "\<forall>z \<in> set ys. precedes y z" by simp
    with xy have "\<forall>z \<in> set ys. precedes x z" by (blast intro: precedes_trans)
    with True xy Cons.prems show ?thesis by simp
  next
    case False
    then have yx: "precedes y x" by (simp add: compareActions_le precedes_total)
    from Cons.prems have "sorted_wrt precedes ys" and "\<forall>z \<in> set ys. precedes y z" by simp_all
    with False yx Cons.IH show ?thesis by (simp add: set_insertBy)
  qed
qed

lemma sorted_sortBy: "sorted_wrt precedes (sortBy compareActions xs)"
  by (induction xs) (auto intro: sorted_insertBy)

lemma sorted_wrt_take: "sorted_wrt P xs \<Longrightarrow> sorted_wrt P (take n xs)"
proof (induction xs arbitrary: n)
  case Nil
  then show ?case by simp
next
  case (Cons x xs)
  show ?case
  proof (cases n)
    case 0
    then show ?thesis by simp
  next
    case (Suc k)
    with Cons show ?thesis by (auto dest: in_set_takeD)
  qed
qed

lemma sorted_slice0: "sorted_wrt P xs \<Longrightarrow> sorted_wrt P (slice0 n xs)"
  by (simp add: slice0_def sorted_wrt_take)

lemma sorted_sqlLimit: "sorted_wrt P xs \<Longrightarrow> sorted_wrt P (sqlLimit n xs)"
  by (simp add: sqlLimit_def sorted_wrt_take)

lemma precedes_action_of: "precedes (action_of a) (action_of b) = precedes a b"
  by (simp add: precedes_def action_of_def)

lemma sorted_map_action_of:
  "sorted_wrt precedes xs \<Longrightarrow> sorted_wrt precedes (map action_of xs)"
  by (simp add: sorted_wrt_map precedes_action_of)

lemma getQueue_sorted: "sorted_wrt precedes (getQueue pf e limit stg)"
proof (cases pf)
  case Web
  then show ?thesis
    by (auto simp: getQueue_def Let_def sorted_sortBy sorted_slice0 split: option.splits)
next
  case Native
  then show ?thesis
    by (auto simp: getQueue_def Let_def sorted_sortBy sorted_sqlLimit sorted_map_action_of
          split: option.splits)
qed

text \<open>Stability: the records that tie with a given one keep their stored order.\<close>

lemma filter_insertBy_other:
  "\<not> P x \<Longrightarrow> filter P (insertBy cmp x xs) = filter P xs"
  by (induction xs) auto

lemma filter_insertBy_ties:
  assumes "sorted_wrt precedes xs"
  shows "filter (ties x) (insertBy compareActions x xs) = x # filter (ties x) xs"
  using assms
proof (induction xs)
  case Nil
  then show ?case by (simp add: ties_def)
next
  case (Cons y ys)
  show ?case
  proof (cases "compareActions x y \<le> 0")
    case True
    then show ?thesis by (simp add: ties_def)
  next
    case False
    then have "\<not> ties x y" by (auto simp: compareActions_def ties_def split: if_splits)
    with False Cons show ?thesis by simp
  qed
qed

lemma ties_cong: "ties k x \<Longrightarrow> ties x = ties k"
  by (auto simp: ties_def fun_eq_iff)

lemma sortBy_stable:
  "filter (ties k) (sortBy compareActions xs) = filter (ties k) xs"
proof (induction xs)
  case Nil
  then show ?case by simp
next
  case (Cons x xs)
  show ?case
  proof (cases "ties k x")
    case True
    from filter_insertBy_ties [OF sorted_sortBy, of x xs]
    have "filter (ties x) (sortBy compareActions (x # xs)) = x # filter (ties x) (sortBy compareActions xs)"
      by simp
    with True Cons show ?thesis by (simp add: ties_cong)
  next
    case False
    with Cons show ?thesis by (simp add: filter_insertBy_other)
  qed
qed

lemma getQueue_web_all:
  "getQueue Web e None stg = sortBy compareActions (loadQueue e stg)"
  by (simp add: getQueue_def)

lemma getQueue_zero: "getQueue pf e (Some 0) stg = getQueue pf e None stg"
  by (cases pf) (simp_all add: getQueue_def)

lemma getQueue_positive:
  "0 < n \<Longrightarrow> getQueue pf e (Some n) stg = take (nat n) (getQueue pf e None stg)"
  by (cases pf) (simp_all add: getQueue_def slice0_def sqlLimit_def take_map)

lemma getQueue_negative:
  "n < 0 \<Longrightarrow>
     getQueue Web e (Some n) stg
       = take (nat (int (length (getQueue Web e None stg)) + n)) (getQueue Web e None stg)
     \<and> getQueue Native e (Some n) stg = getQueue Native e None stg"
  by (simp add: getQueue_def slice0_def sqlLimit_def Let_def)

lemma loadQueue_read_ok: "storage_read_ok e \<Longrightarrow> loadQueue e stg = persisted Web stg"
  by (simp add: loadQueue_def persisted_def)

lemma getQueue_native_mset:
  "db_ok e \<Longrightarrow> mset (getQueue Native e None stg) = mset (persisted Native stg)"
proof -
  assume "db_ok e"
  then have "getQueue Native e None stg = map action_of (sortBy compareActions (db_rows stg))"
    by (simp add: getQueue_def)
  then have "mset (getQueue Native e None stg)
               = image_mset action_of (mset (sortBy compareActions (db_rows stg)))"
    by simp
  then show ?thesis by (simp add: mset_sortBy persisted_def)
qed

text \<open>
  C8. For every persisted queue, platform, environment and limit, the list \<open>getQueue\<close>
  returns is ordered by priority descending and, within one priority, by creation time
  ascending. Without a limit (absent or 0) it returns exactly the persisted records when
  the read succeeds, each once, on both platforms; on the web, records that tie in priority
  and creation time keep their stored order. A positive limit \<open>n\<close> returns the first \<open>n\<close>
  records of that list; a negative limit drops the last \<open>-n\<close> records on the web and is
  no limit on native. After enqueueing a priority-1 action and then a priority-10 action
  into the empty queue (the second enqueue and \<open>getQueue\<close> reading the queue
  successfully), \<open>getQueue\<close> returns the priority-10 record first and the priority-1
  record second.
\<close>

theorem C8_getQueue_order:
  "sorted_wrt precedes (getQueue pf e limit stg)
   \<and> mset (getQueue Web e None stg) = mset (loadQueue e stg)
   \<and> filter (ties k) (getQueue Web e None stg) = filter (ties k) (loadQueue e stg)
   \<and> (storage_read_ok e \<longrightarrow>
        mset (getQueue Web e None stg) = mset (persisted Web stg) \<and>
        filter (ties k) (getQueue Web e None stg) = filter (ties k) (persisted Web stg))
   \<and> (db_ok e \<longrightarrow> mset (getQueue Native e None stg) = mset (persisted Native stg))
   \<and> getQueue pf e (Some 0) stg = getQueue pf e None stg
   \<and> (0 < n \<longrightarrow> getQueue pf e (Some n) stg = take (nat n) (getQueue pf e None stg))
   \<and> (n < 0 \<longrightarrow>
        getQueue Web e (Some n) stg
          = take (nat (int (length (getQueue Web e None stg)) + n)) (getQueue Web e None stg) \<and>
        getQueue Native e (Some n) stg = getQueue Native e None stg)
   \<and> (enqueue pf e0 (exampleAction 1) emptyStorage = Some (q1, s1) \<and>
       enqueue pf e1 (exampleAction 10) s1 = Some (q10, s2) \<and>
       storage_read_ok e1 \<and> storage_read_ok e \<and> db_ok e
         \<longrightarrow> getQueue pf e None s2 = [q10, q1] \<and> priority q10 = 10 \<and> priority q1 = 1)"
proof -
  have ex: "getQueue pf e None s2 = [q10, q1] \<and> priority q10 = 10 \<and> priority q1 = 1"
    if a: "enqueue pf e0 (exampleAction 1) emptyStorage = Some (q1, s1)"
      and b: "enqueue pf e1 (exampleAction 10) s1 = Some (q10, s2)"
      and r: "storage_read_ok e1" "storage_read_ok e" "db_ok e"
  proof (cases pf)
    case Web
    with a b r show ?thesis
      by (auto simp: enqueue_def getQueue_def loadQueue_def saveQueue_def newQueuedAction_def
            exampleAction_def emptyStorage_def compareActions_def Let_def split: if_splits)
  next
    case Native
    with a b r show ?thesis
      by (auto simp: enqueue_def getQueue_def insertRow_def row_of_def action_of_def
            newQueuedAction_def exampleAction_def emptyStorage_def compareActions_def Let_def
            split: if_splits)
  qed
  have web: "mset (getQueue Web e None stg) = mset (loadQueue e stg)"
    "filter (ties k) (getQueue Web e None stg) = filter (ties k) (loadQueue e stg)"
    by (simp_all add: getQueue_web_all mset_sortBy sortBy_stable)
  have webp: "mset (getQueue Web e None stg) = mset (persisted Web stg) \<and>
        filter (ties k) (getQueue Web e None stg) = filter (ties k) (persisted Web stg)"
    if "storage_read_ok e"
    using web loadQueue_read_ok [OF that, of stg] by simp
  have neg: "getQueue Web e (Some n) stg
          = take (nat (int (length (getQueue Web e None stg)) + n)) (getQueue Web e None stg) \<and>
        getQueue Native e (Some n) stg = getQueue Native e None stg" if "n < 0"
    using getQueue_negative [OF that] .
  show ?thesis
    using ex web webp neg getQueue_sorted [of pf e limit stg] getQueue_native_mset [of e stg]
      getQueue_zero [of pf e stg] getQueue_positive [of n pf e stg]
    by blast
qed

text \<open>
  A priority-1 action enqueued at time 1000 and a priority-10 action enqueued at time 2000,
  on the web and on native, read without a limit and with the limit 1.
\<close>

theorem C8_getQueue_order_witness:
  "map priority
     (getQueue Web (exampleEnv 3000 None) None
        (snd (the (enqueue Web ((exampleEnv 2000 None)\<lparr>uuid_queue := ''action-2''\<rparr>) (exampleAction 10)
           (snd (the (enqueue Web (exampleEnv 1000 None) (exampleAction 1) emptyStorage)))))))
     = [10, 1]
   \<and> map createdAt
     (getQueue Native (exampleEnv 3000 None) None
        (snd (the (enqueue Native ((exampleEnv 2000 None)\<lparr>uuid_queue := ''action-2''\<rparr>) (exampleAction 10)
           (snd (the (enqueue Native (exampleEnv 1000 None) (exampleAction 1) emptyStorage)))))))
     = [2000, 1000]
   \<and> map priority
     (getQueue Web (exampleEnv 3000 None) (Some 1)
        (snd (the (enqueue Web ((exampleEnv 2000 None)\<lparr>uuid_queue := ''action-2''\<rparr>) (exampleAction 10)
           (snd (the (enqueue Web (exampleEnv 1000 None) (exampleAction 1) emptyStorage)))))))
     = [10]
   \<and> map priority
     (getQueue Native (exampleEnv 3000 None) (Some 1)
        (snd (the (enqueue Native ((exampleEnv 2000 None)\<lparr>uuid_queue := ''action-2''\<rparr>) (exampleAction 10)
           (snd (the (enqueue Native (exampleEnv 1000 None) (exampleAction 1) emptyStorage)))))))
     = [10]"
  using C8_getQueue_order [of Web "exampleEnv 3000 None" None
      "snd (the (enqueue Web ((exampleEnv 2000 None)\<lparr>uuid_queue := ''action-2''\<rparr>) (exampleAction 10)
           (snd (the (enqueue Web (exampleEnv 1000 None) (exampleAction 1) emptyStorage)))))"]
  by (simp add: enqueue_def getQueue_def loadQueue_def saveQueue_def insertRow_def row_of_def
        action_of_def newQueuedAction_def exampleAction_def emptyStorage_def exampleEnv_def
        compareActions_def slice0_def sqlLimit_def Let_def)

subsection \<open>Reading and purging when the storage read fails\<close>

text \<open>
  C10. When the storage read fails, \<open>getQueue\<close> returns the empty list and
  \<open>removeFailedActions\<close> returns 0 on both platforms, and neither throws. The native purge
  leaves the table as it was. The web purge, whose \<open>loadQueue\<close> answered the empty list,
  writes that empty list back: when the write succeeds the persisted queue is empty
  afterwards, whatever it held.
\<close>

theorem C10_read_failure:
  "(\<not> storage_read_ok e \<longrightarrow>
       getQueue Web e limit stg = [] \<and>
       fst (removeFailedActions Web e stg) = 0 \<and>
       persisted Web (snd (removeFailedActions Web e stg)) =
         (if storage_write_ok e then [] else persisted Web stg))
   \<and> (\<not> db_ok e \<longrightarrow>
       getQueue Native e limit stg = [] \<and>
       removeFailedActions Native e stg = (0, stg))"
  by (auto simp: getQueue_def removeFailedActions_def loadQueue_def saveQueue_def
        persisted_def slice0_def Let_def split: option.splits)

text \<open>
  The web purge on a queue of one pending record (0 of 5 attempts) while the read fails and
  the write succeeds: it reports 0 removed and the record is gone.
\<close>

theorem C10_read_failure_witness:
  "getQueue Web ((exampleEnv 2000 None)\<lparr>storage_read_ok := False\<rparr>) None pendingStorage = []
   \<and> map attempts (persisted Web pendingStorage) = [0]
   \<and> fst (removeFailedActions Web ((exampleEnv 2000 None)\<lparr>storage_read_ok := False\<rparr>)
            pendingStorage) = 0
   \<and> persisted Web (snd (removeFailedActions Web
        ((exampleEnv 2000 None)\<lparr>storage_read_ok := False\<rparr>) pendingStorage)) = []"
  using C10_read_failure [of "(exampleEnv 2000 None)\<lparr>storage_read_ok := False\<rparr>" None
          pendingStorage]
  by (simp add: exampleEnv_def pendingStorage_def persisted_def)

subsection \<open>Signed captures\<close>

lemmas sign_defs = captureCurrentTime_def validateIntegrity_def generateSignature_def
  getMonotonicTime_def getDeviceId_def Let_def

lemma capture_validates:
  assumes "captureCurrentTime pf e evt = Some c"
    and "digest e' = digest e" and "stringify e' = stringify e"
  shows "validateIntegrity pf e' c"
proof (cases pf)
  case Web
  with assms show ?thesis by (auto simp: sign_defs)
next
  case Native
  with assms show ?thesis
    by (auto simp: sign_defs Let_def split: option.splits)
qed

lemma native_signature:
  assumes "captureCurrentTime Native e evt = Some c"
  shows "digest e (stringify e (payload c) @ SECRET_SALT) = Some (signature c)"
  using assms by (auto simp: sign_defs Let_def split: option.splits)

text \<open>
  C6, as the code has it. A capture produced by \<open>captureCurrentTime\<close> passes
  \<open>validateIntegrity\<close> on its platform, in any environment with the same serialisation
  and digest. After its payload is replaced, the native check fails exactly when the digest
  of the new payload with the salt differs from that of the original payload; the web
  check, which compares the signature with the constant \<open>WEB_UNVERIFIED_SIGNATURE\<close> only,
  still passes.
\<close>

theorem C6_validateIntegrity:
  assumes "captureCurrentTime pf e evt = Some c"
    and "digest e' = digest e" and "stringify e' = stringify e"
  shows "validateIntegrity pf e' c
       \<and> (pf = Native \<longrightarrow>
            (validateIntegrity Native e' (c\<lparr>payload := p'\<rparr>) \<longleftrightarrow>
               digest e (stringify e p' @ SECRET_SALT)
                 = digest e (stringify e (payload c) @ SECRET_SALT)))
       \<and> (pf = Web \<longrightarrow> validateIntegrity Web e' (c\<lparr>payload := p'\<rparr>))"
proof -
  have n: "validateIntegrity Native e' (c\<lparr>payload := p'\<rparr>) \<longleftrightarrow>
             digest e (stringify e p' @ SECRET_SALT)
               = digest e (stringify e (payload c) @ SECRET_SALT)" if "pf = Native"
    using native_signature [of e evt c] assms that
    by (auto simp: validateIntegrity_def generateSignature_def split: option.splits)
  have w: "validateIntegrity Web e' (c\<lparr>payload := p'\<rparr>)" if "pf = Web"
    using assms that by (auto simp: sign_defs)
  from capture_validates [OF assms] n w show ?thesis by blast
qed

text \<open>
  On native, with the example serialisation and digest, the capture validates and the
  capture with \<open>userTime\<close> moved by one millisecond does not.
\<close>

theorem C6_validateIntegrity_witness:
  "map_option (validateIntegrity Native healthyEnv) (captureCurrentTime Native healthyEnv CLOCK_IN)
     = Some True
   \<and> map_option (validateIntegrity Native healthyEnv \<circ> withUserTime 1700000000001)
       (captureCurrentTime Native healthyEnv CLOCK_IN) = Some False"
proof -
  obtain c where c: "captureCurrentTime Native healthyEnv CLOCK_IN = Some c"
    by (simp add: sign_defs healthyEnv_def exampleEnv_def exampleDigest_def)
  have p: "payload c = \<lparr>userTime = 1700000000000, monotonicTime = 5000000, eventType = CLOCK_IN,
                         deviceId = ''device-1'', timestamp = 1700000000000\<rparr>"
    using c by (auto simp: sign_defs healthyEnv_def exampleEnv_def exampleDigest_def)
  have d: "digest healthyEnv (stringify healthyEnv ((payload c)\<lparr>userTime := 1700000000001\<rparr>) @ SECRET_SALT)
           \<noteq> digest healthyEnv (stringify healthyEnv (payload c) @ SECRET_SALT)"
    by (simp add: p healthyEnv_def exampleEnv_def exampleDigest_def exampleStringify_def
          showInt_def showNat.simps digitChar_def)
  from C6_validateIntegrity [OF c refl refl, of "(payload c)\<lparr>userTime := 1700000000001\<rparr>"] d
  show ?thesis by (simp add: c withUserTime_def)
qed

text \<open>
  The claim as stated fails on the web: a web capture whose \<open>userTime\<close> was moved by one
  millisecond still passes \<open>validateIntegrity\<close>.
\<close>

theorem C6_web_tamper_counterexample:
  "map_option (validateIntegrity Web healthyEnv \<circ> withUserTime 1700000000001)
     (captureCurrentTime Web healthyEnv CLOCK_IN) = Some True
   \<and> map_option (userTime \<circ> payload) (captureCurrentTime Web healthyEnv CLOCK_IN)
       = Some 1700000000000"
  by (simp add: sign_defs withUserTime_def healthyEnv_def exampleEnv_def)

subsection \<open>Captures without the monotonic provider\<close>

text \<open>
  C7, as the code has it. When the native monotonic provider rejects and
  \<open>performance.now()\<close> is missing too, \<open>captureCurrentTime\<close> throws and no capture exists.
  When \<open>performance.now()\<close> answers \<open>t\<close>, the capture is the one a working provider
  reporting \<open>t / 1000\<close> seconds yields: its \<open>monotonicTime\<close> is \<open>t\<close>, it is signed as
  usual and passes \<open>validateIntegrity\<close>. Every web capture carries the reserved signature
  \<open>WEB_UNVERIFIED_SIGNATURE\<close> and repeats the wall clock as its monotonic time.
\<close>

theorem C7_monotonic_fallback:
  "(systemUptime e = None \<and> performanceNow e = None \<longrightarrow> captureCurrentTime Native e evt = None)
   \<and> (systemUptime e = None \<and> performanceNow e = Some t \<longrightarrow>
        captureCurrentTime Native e evt
          = captureCurrentTime Native (e\<lparr>systemUptime := Some (t / 1000)\<rparr>) evt)
   \<and> (systemUptime e = None \<and> performanceNow e = Some t \<and>
      captureCurrentTime Native e evt = Some c \<longrightarrow>
        monotonicTime (payload c) = t \<and> validateIntegrity Native e c)
   \<and> (captureCurrentTime Web e evt = Some c \<longrightarrow>
        signature c = WEB_SIGNATURE \<and> monotonicTime (payload c) = of_int (userTime (payload c)))"
proof -
  have v: "validateIntegrity Native e c" if "captureCurrentTime Native e evt = Some c"
    using capture_validates [OF that refl refl] .
  have m: "monotonicTime (payload c) = t"
    if "systemUptime e = None" "performanceNow e = Some t"
       "captureCurrentTime Native e evt = Some c"
    using that by (auto simp: sign_defs Let_def split: option.splits)
  have s: "captureCurrentTime Native e evt
             = captureCurrentTime Native (e\<lparr>systemUptime := Some (t / 1000)\<rparr>) evt"
    if "systemUptime e = None" "performanceNow e = Some t"
    using that by (simp add: sign_defs Let_def)
  have n: "captureCurrentTime Native e evt = None"
    if "systemUptime e = None" "performanceNow e = None"
    using that by (simp add: sign_defs)
  have w: "signature c = WEB_SIGNATURE \<and> monotonicTime (payload c) = of_int (userTime (payload c))"
    if "captureCurrentTime Web e evt = Some c"
    using that by (auto simp: sign_defs)
  from v m s n w show ?thesis by blast
qed

theorem C7_monotonic_fallback_witness:
  "captureCurrentTime Native (exampleEnv 1700000000000 None) CLOCK_IN = None
   \<and> map_option (monotonicTime \<circ> payload) (captureCurrentTime Native fallbackEnv CLOCK_IN)
       = Some 5000000
   \<and> map_option signature (captureCurrentTime Web fallbackEnv CLOCK_IN) = Some WEB_SIGNATURE"
  using C7_monotonic_fallback [of "exampleEnv 1700000000000 None" CLOCK_IN]
  by (simp add: sign_defs fallbackEnv_def exampleEnv_def exampleDigest_def)

text \<open>
  The claim as stated fails on native: with the provider rejecting and
  \<open>performance.now()\<close> at 5000000, the capture equals the capture of a device whose
  provider works and reports 5000 s, and it passes \<open>validateIntegrity\<close>; nothing in it
  tells the two apart.
\<close>

theorem C7_degraded_capture_counterexample:
  "systemUptime fallbackEnv = None
   \<and> systemUptime healthyEnv = Some 5000
   \<and> captureCurrentTime Native fallbackEnv CLOCK_IN = captureCurrentTime Native healthyEnv CLOCK_IN
   \<and> map_option (validateIntegrity Native healthyEnv) (captureCurrentTime Native fallbackEnv CLOCK_IN)
       = Some True"
  by (simp add: sign_defs fallbackEnv_def healthyEnv_def exampleEnv_def exampleDigest_def)

subsection \<open>Validation of a time entry\<close>

lemma duration_gt_24h:
  "((of_int d :: rat) / (1000 * 60 * 60) > 24) = (d > 86400000)"
proof -
  have "((of_int d :: rat) / (1000 * 60 * 60) > 24) = ((of_int d :: rat) > of_int 86400000)"
    by (simp add: field_simps)
  also have "\<dots> = (d > 86400000)" by (simp only: of_int_less_iff)
  finally show ?thesis .
qed

lemma durationIssues_empty:
  "endTime t = Some en \<Longrightarrow>
     durationIssues t = [] \<longleftrightarrow> \<not> (en < startTime t \<or> en - startTime t > 86400000)"
  by (auto simp: durationIssues_def Let_def duration_gt_24h)

lemma varianceIssues_empty:
  "endTime t = Some en \<Longrightarrow> monotonicEnd t = Some me \<Longrightarrow> me \<noteq> 0 \<Longrightarrow>
     varianceIssues t = [] \<longleftrightarrow> \<not> variance_exceeds (en - startTime t) (me - monotonicStart t)"
  by (auto simp: varianceIssues_def Let_def)

text \<open>
  C9, as the code has it. For an entry with an end time the web version flags it invalid
  exactly when the end is before the start or the wall-clock duration exceeds 24 hours; it
  has no variance check. The native version does the same when \<open>monotonicEnd\<close> is absent;
  when \<open>monotonicEnd\<close> is present and not zero it flags the entry exactly when one of the
  two conditions holds or the variance exceeds 0.05, where a wall-clock duration of zero
  with a monotonic duration other than zero counts as exceeding. An entry from
  2024-01-01T00:00:00Z (1704067200000) to 2024-01-03T00:00:00Z (1704240000000) is flagged
  on both platforms.
\<close>

theorem C9_validateTimeEntry:
  assumes "endTime t = Some en"
  shows "(\<not> isValid Web t \<longleftrightarrow> en < startTime t \<or> en - startTime t > 86400000)
       \<and> (monotonicEnd t = None \<longrightarrow>
            (\<not> isValid Native t \<longleftrightarrow> en < startTime t \<or> en - startTime t > 86400000))
       \<and> (monotonicEnd t = Some me \<and> me \<noteq> 0 \<and> en \<noteq> startTime t \<longrightarrow>
            (\<not> isValid Native t \<longleftrightarrow>
               en < startTime t \<or> en - startTime t > 86400000 \<or>
               \<bar>of_int (en - startTime t) - (me - monotonicStart t)\<bar> / of_int (en - startTime t)
                 > 5 / 100))
       \<and> (monotonicEnd t = Some me \<and> me \<noteq> 0 \<and> en = startTime t \<longrightarrow>
            (\<not> isValid Native t \<longleftrightarrow> me - monotonicStart t \<noteq> 0))
       \<and> (startTime t = 1704067200000 \<and> en = 1704240000000 \<longrightarrow> \<not> isValid pf t)"
proof -
  note d = durationIssues_empty [OF assms]
  have web: "\<not> isValid Web t \<longleftrightarrow> en < startTime t \<or> en - startTime t > 86400000"
    using d by (simp add: isValid_def validateTimeEntry_def)
  have none: "\<not> isValid Native t \<longleftrightarrow> en < startTime t \<or> en - startTime t > 86400000"
    if "monotonicEnd t = None"
    using d that assms by (simp add: isValid_def validateTimeEntry_def varianceIssues_def)
  have some: "\<not> isValid Native t \<longleftrightarrow>
                en < startTime t \<or> en - startTime t > 86400000 \<or>
                variance_exceeds (en - startTime t) (me - monotonicStart t)"
    if "monotonicEnd t = Some me" "me \<noteq> 0"
    using d varianceIssues_empty [OF assms that]
    by (auto simp: isValid_def validateTimeEntry_def)
  have ex: "\<not> isValid pf t" if "startTime t = 1704067200000" "en = 1704240000000"
    using d that by (cases pf) (simp_all add: isValid_def validateTimeEntry_def)
  show ?thesis
    using web none some ex by (auto simp: variance_exceeds_def)
qed

text \<open>
  The 48-hour entry on both platforms, and an entry of one second of wall clock and five
  seconds of monotonic time on native.
\<close>

theorem C9_validateTimeEntry_witness:
  "\<not> isValid Web (exampleEntry 1704067200000 1704240000000 0 (Some 172800000))
   \<and> \<not> isValid Native (exampleEntry 1704067200000 1704240000000 0 (Some 172800000))
   \<and> \<not> isValid Native (exampleEntry 0 1000 0 (Some 5000))
   \<and> isValid Native (exampleEntry 0 1000 0 (Some 1000))"
  using C9_validateTimeEntry [of "exampleEntry 1704067200000 1704240000000 0 (Some 172800000)"
          1704240000000 172800000 Web]
  by (simp add: isValid_def validateTimeEntry_def durationIssues_def varianceIssues_def
        variance_exceeds_def exampleEntry_def Let_def)

text \<open>
  The claim as stated fails on the web: an entry of one second of wall clock and five
  seconds of monotonic time (a variance of 4) is not flagged.
\<close>

theorem C9_web_variance_counterexample:
  "isValid Web (exampleEntry 0 1000 0 (Some 5000))
   \<and> \<bar>(of_int (1000 - 0) :: rat) - (5000 - 0)\<bar> / of_int (1000 - 0) > 5 / 100"
  by (simp add: isValid_def validateTimeEntry_def durationIssues_def exampleEntry_def Let_def)

end
